theory Spec2Isabelle
  imports Complex_Main
begin

section \<open>JavaScript values held by the page\<close>

text \<open>
  Both pages keep whatever axios hands them in \<open>res.data\<close>: a parsed JSON document, or the
  raw text when the body is not JSON. Nothing is checked at run time (the TypeScript
  interface \<open>HealthStatus\<close> of the Next.js page is erased by the compiler), so the state
  variable ranges over every JavaScript value that JSON can produce, plus \<open>null\<close> (the
  initial value) and \<open>undefined\<close> (the value of a missing property).
  An object is the list of its own properties.
\<close>

datatype jsval =
    JUndefined
  | JNull
  | JBool bool
  | JNum rat
  | JStr string
  | JArr "jsval list"
  | JObj "(string \<times> jsval) list"

datatype js_error = TypeError

text \<open>
  \<open>v.k\<close> for a property name \<open>k\<close> that no built-in prototype defines (\<open>status\<close> and
  \<open>message\<close> are the only names the pages read): reading a property of \<open>null\<close> or
  \<open>undefined\<close> throws, an object yields its own property or \<open>undefined\<close>, every other value
  yields \<open>undefined\<close>.
\<close>

fun get_prop :: "jsval \<Rightarrow> string \<Rightarrow> js_error + jsval" where
  "get_prop JUndefined k = Inl TypeError"
| "get_prop JNull k = Inl TypeError"
| "get_prop (JObj kvs) k = Inr (case map_of kvs k of None \<Rightarrow> JUndefined | Some v \<Rightarrow> v)"
| "get_prop (JBool b) k = Inr JUndefined"
| "get_prop (JNum n) k = Inr JUndefined"
| "get_prop (JStr s) k = Inr JUndefined"
| "get_prop (JArr vs) k = Inr JUndefined"

text \<open>\<open>v?.k\<close>: optional chaining short-circuits to \<open>undefined\<close> on \<open>null\<close> and \<open>undefined\<close>.\<close>

fun opt_prop :: "jsval \<Rightarrow> string \<Rightarrow> js_error + jsval" where
  "opt_prop JUndefined k = Inr JUndefined"
| "opt_prop JNull k = Inr JUndefined"
| "opt_prop v k = get_prop v k"

text \<open>\<open>v === 'lit'\<close> with a string literal on the right: same type and same characters.\<close>

definition strict_eq_str :: "jsval \<Rightarrow> string \<Rightarrow> bool" where
  "strict_eq_str v lit = (v = JStr lit)"

section \<open>String literals of the pages\<close>

text \<open>
  Strings are byte lists; the two status emoji are written as the UTF-8 bytes the source
  files hold (U+1F7E2, large green circle, and U+1F534, large red circle).
\<close>

definition green_circle :: string where
  "green_circle = [CHR 0xF0, CHR 0x9F, CHR 0x9F, CHR 0xA2]"

definition red_circle :: string where
  "red_circle = [CHR 0xF0, CHR 0x9F, CHR 0x94, CHR 0xB4]"

definition Home_API_BASE :: string where
  "Home_API_BASE = ''http://localhost:8000''"

definition App_API_BASE :: string where
  "App_API_BASE = ''http://localhost:8000''"

section \<open>Component state\<close>

text \<open>
  The two \<open>useState\<close> cells of a mounted component, the dependency array React recorded at
  the last commit (\<open>None\<close> before the first one), and three observation fields that the
  pages do not hold themselves: the URLs of the GET requests issued so far, the number of
  promises not yet settled, and the number of calls of \<open>setHealthStatus\<close>.
\<close>

record component =
  healthStatus :: jsval
  loading :: bool
  effect_deps :: "jsval list option"
  requests :: "string list"
  in_flight :: nat
  writes :: nat

record response =
  http_status :: nat
  data :: jsval

datatype outcome = Fulfilled response | Rejected jsval

datatype event = Rerender | Settle outcome

definition setHealthStatus :: "jsval \<Rightarrow> component \<Rightarrow> component" where
  "setHealthStatus v c = c\<lparr>healthStatus := v, writes := Suc (writes c)\<rparr>"

definition setLoading :: "bool \<Rightarrow> component \<Rightarrow> component" where
  "setLoading b c = c\<lparr>loading := b\<rparr>"

definition axios_get :: "string \<Rightarrow> component \<Rightarrow> component" where
  "axios_get url c = c\<lparr>requests := requests c @ [url], in_flight := Suc (in_flight c)\<rparr>"

section \<open>The Next.js page: \<open>Home\<close>\<close>

definition Home_initial :: component where
  "Home_initial =
     \<lparr>healthStatus = JNull, loading = True, effect_deps = None,
      requests = [], in_flight = 0, writes = 0\<rparr>"

definition Home_effect :: "component \<Rightarrow> component" where
  "Home_effect c = axios_get (Home_API_BASE @ ''/health'') c"

definition Home_deps :: "jsval list" where
  "Home_deps = []"

definition Home_then :: "response \<Rightarrow> component \<Rightarrow> component" where
  "Home_then res c = setLoading False (setHealthStatus (data res) c)"

definition Home_catch :: "jsval \<Rightarrow> component \<Rightarrow> component" where
  "Home_catch reason c =
     setLoading False
       (setHealthStatus
          (JObj [(''status'', JStr ''offline''), (''message'', JStr ''Backend not running'')]) c)"

text \<open>
  \<open>useEffect(effect, deps)\<close> at a commit: the effect runs after the first render, and after
  a later render only when the dependency array differs from the recorded one.
\<close>

definition Home_commit :: "component \<Rightarrow> component" where
  "Home_commit c =
     (case effect_deps c of
        None \<Rightarrow> Home_effect c
      | Some prev \<Rightarrow> if prev = Home_deps then c else Home_effect c)
     \<lparr>effect_deps := Some Home_deps\<rparr>"

text \<open>
  The root layout that mounts \<open>Home\<close> is not among the sources; the page is taken as
  mounted plainly, with one run of its effect.
\<close>

definition Home_mount :: component where
  "Home_mount = Home_commit Home_initial"

text \<open>
  \<open>axios.get(...).then(f).catch(g)\<close>: a fulfilled promise runs \<open>f\<close>, a rejected one runs \<open>g\<close>;
  \<open>f\<close> only calls the two setters, which do not throw, so \<open>g\<close> never runs after \<open>f\<close>.
  A settlement with no request in flight does not exist, and the state change is followed
  by a render.
\<close>

fun Home_settle :: "outcome \<Rightarrow> component \<Rightarrow> component" where
  "Home_settle (Fulfilled res) c = Home_then res c"
| "Home_settle (Rejected reason) c = Home_catch reason c"

fun Home_step :: "component \<Rightarrow> event \<Rightarrow> component" where
  "Home_step c Rerender = Home_commit c"
| "Home_step c (Settle out) =
     (if in_flight c = 0 then c
      else Home_commit (Home_settle out (c\<lparr>in_flight := in_flight c - 1\<rparr>)))"

definition Home_run :: "event list \<Rightarrow> component" where
  "Home_run evs = foldl Home_step Home_mount evs"

text \<open>The \<open>className\<close> of the badge \<open>div\<close> and its text child.\<close>

definition Home_badge_class :: "component \<Rightarrow> js_error + string" where
  "Home_badge_class c =
     (if loading c then Inr ''border-text-muted text-text-muted''
      else case opt_prop (healthStatus c) ''status'' of
             Inl e \<Rightarrow> Inl e
           | Inr s \<Rightarrow>
               if strict_eq_str s ''healthy'' then Inr ''border-green-500 text-green-500''
               else Inr ''border-red-500 text-red-500'')"

definition Home_className :: "component \<Rightarrow> js_error + string" where
  "Home_className c =
     (case Home_badge_class c of
        Inl e \<Rightarrow> Inl e
      | Inr cls \<Rightarrow> Inr (''inline-block px-4 py-2 rounded-full border mb-12 '' @ cls))"

definition Home_badge_text :: "component \<Rightarrow> js_error + string" where
  "Home_badge_text c =
     (if loading c then Inr ''Connecting...''
      else case opt_prop (healthStatus c) ''status'' of
             Inl e \<Rightarrow> Inl e
           | Inr s \<Rightarrow>
               if strict_eq_str s ''healthy'' then Inr (green_circle @ '' Backend Connected'')
               else Inr (red_circle @ '' Backend Offline''))"

section \<open>The Vite/MUI page: \<open>App\<close>\<close>

definition App_initial :: component where
  "App_initial =
     \<lparr>healthStatus = JNull, loading = True, effect_deps = None,
      requests = [], in_flight = 0, writes = 0\<rparr>"

definition App_effect :: "component \<Rightarrow> component" where
  "App_effect c = axios_get (App_API_BASE @ ''/health'') c"

definition App_deps :: "jsval list" where
  "App_deps = []"

definition App_then :: "response \<Rightarrow> component \<Rightarrow> component" where
  "App_then res c = setLoading False (setHealthStatus (data res) c)"

definition App_catch :: "jsval \<Rightarrow> component \<Rightarrow> component" where
  "App_catch reason c =
     setLoading False
       (setHealthStatus
          (JObj [(''status'', JStr ''offline''), (''message'', JStr ''Backend not running'')]) c)"

definition App_commit :: "component \<Rightarrow> component" where
  "App_commit c =
     (case effect_deps c of
        None \<Rightarrow> App_effect c
      | Some prev \<Rightarrow> if prev = App_deps then c else App_effect c)
     \<lparr>effect_deps := Some App_deps\<rparr>"

text \<open>
  \<open>main.jsx\<close> renders \<open>App\<close> inside \<open>React.StrictMode\<close>. A production build ignores
  Strict Mode. A development build, once the component is mounted and its effect has run,
  runs the cleanup of the effect and then the effect again, keeping the state; this effect
  returns no cleanup, so the request is simply issued a second time.
\<close>

datatype build = Development | Production

definition App_mount :: "build \<Rightarrow> component" where
  "App_mount b =
     (case b of
        Production \<Rightarrow> App_commit App_initial
      | Development \<Rightarrow> App_effect (App_commit App_initial))"

fun App_settle :: "outcome \<Rightarrow> component \<Rightarrow> component" where
  "App_settle (Fulfilled res) c = App_then res c"
| "App_settle (Rejected reason) c = App_catch reason c"

fun App_step :: "component \<Rightarrow> event \<Rightarrow> component" where
  "App_step c Rerender = App_commit c"
| "App_step c (Settle out) =
     (if in_flight c = 0 then c
      else App_commit (App_settle out (c\<lparr>in_flight := in_flight c - 1\<rparr>)))"

definition App_run :: "build \<Rightarrow> event list \<Rightarrow> component" where
  "App_run b evs = foldl App_step (App_mount b) evs"

text \<open>The \<open>label\<close> and the \<open>sx\<close> object of the badge \<open>Chip\<close>.\<close>

definition App_label :: "component \<Rightarrow> js_error + string" where
  "App_label c =
     (if loading c then Inr ''Connecting...''
      else case opt_prop (healthStatus c) ''status'' of
             Inl e \<Rightarrow> Inl e
           | Inr s \<Rightarrow>
               if strict_eq_str s ''healthy'' then Inr (green_circle @ '' Backend Connected'')
               else Inr (red_circle @ '' Backend Offline''))"

record chip_sx =
  mb :: nat
  borderColor :: string
  color :: string

definition App_palette :: "component \<Rightarrow> js_error + string" where
  "App_palette c =
     (case opt_prop (healthStatus c) ''status'' of
        Inl e \<Rightarrow> Inl e
      | Inr s \<Rightarrow> if strict_eq_str s ''healthy'' then Inr ''success.main'' else Inr ''error.main'')"

definition App_sx :: "component \<Rightarrow> js_error + chip_sx" where
  "App_sx c =
     (case App_palette c of
        Inl e \<Rightarrow> Inl e
      | Inr bc \<Rightarrow>
          (case App_palette c of
             Inl e \<Rightarrow> Inl e
           | Inr fg \<Rightarrow> Inr \<lparr>mb = 6, borderColor = bc, color = fg\<rparr>))"

section \<open>Event sequences\<close>

text \<open>The first settlement of the request in an event sequence, if there is one.\<close>

fun first_settle :: "event list \<Rightarrow> outcome option" where
  "first_settle [] = None"
| "first_settle (Rerender # evs) = first_settle evs"
| "first_settle (Settle out # evs) = Some out"

section \<open>Reading properties\<close>

lemma opt_prop_total: "\<exists>v. opt_prop x k = Inr v"
  by (cases x) simp_all

section \<open>The life of a mounted component\<close>

lemma Home_commit_mounted: "effect_deps c = Some [] \<Longrightarrow> Home_commit c = c"
  by (simp add: Home_commit_def Home_deps_def)

lemma App_commit_mounted: "effect_deps c = Some [] \<Longrightarrow> App_commit c = c"
  by (simp add: App_commit_def App_deps_def)

lemma Home_mount_eq:
  "Home_mount =
     \<lparr>healthStatus = JNull, loading = True, effect_deps = Some [],
      requests = [''http://localhost:8000/health''], in_flight = 1, writes = 0\<rparr>"
  by (simp add: Home_mount_def Home_commit_def Home_initial_def Home_effect_def
      axios_get_def Home_API_BASE_def Home_deps_def)

lemma App_mount_eq:
  "(App_mount Production) =
     \<lparr>healthStatus = JNull, loading = True, effect_deps = Some [],
      requests = [''http://localhost:8000/health''], in_flight = 1, writes = 0\<rparr>"
  by (simp add: App_mount_def App_commit_def App_initial_def App_effect_def
      axios_get_def App_API_BASE_def App_deps_def)

lemma Home_idle:
  "effect_deps c = Some [] \<Longrightarrow> in_flight c = 0 \<Longrightarrow> foldl Home_step c evs = c"
proof (induction evs)
  case Nil
  show ?case by simp
next
  case (Cons ev evs)
  then show ?case by (cases ev) (simp_all add: Home_commit_mounted)
qed

lemma App_idle:
  "effect_deps c = Some [] \<Longrightarrow> in_flight c = 0 \<Longrightarrow> foldl App_step c evs = c"
proof (induction evs)
  case Nil
  show ?case by simp
next
  case (Cons ev evs)
  then show ?case by (cases ev) (simp_all add: App_commit_mounted)
qed

lemma Home_settle_fields:
  "effect_deps (Home_settle out c) = effect_deps c"
  "in_flight (Home_settle out c) = in_flight c"
  "requests (Home_settle out c) = requests c"
  "writes (Home_settle out c) = Suc (writes c)"
  "loading (Home_settle out c) = False"
  by (cases out; simp add: Home_then_def Home_catch_def setLoading_def setHealthStatus_def)+

lemma App_settle_fields:
  "effect_deps (App_settle out c) = effect_deps c"
  "in_flight (App_settle out c) = in_flight c"
  "requests (App_settle out c) = requests c"
  "writes (App_settle out c) = Suc (writes c)"
  "loading (App_settle out c) = False"
  by (cases out; simp add: App_then_def App_catch_def setLoading_def setHealthStatus_def)+

lemma Home_pending:
  "effect_deps c = Some [] \<Longrightarrow> in_flight c = 1 \<Longrightarrow>
   foldl Home_step c evs =
     (case first_settle evs of
        None \<Rightarrow> c
      | Some out \<Rightarrow> Home_settle out (c\<lparr>in_flight := 0\<rparr>))"
proof (induction evs)
  case Nil
  show ?case by simp
next
  case (Cons ev evs)
  show ?case
  proof (cases ev)
    case Rerender
    with Cons show ?thesis by (simp add: Home_commit_mounted)
  next
    case (Settle out)
    have "Home_commit (Home_settle out (c\<lparr>in_flight := 0\<rparr>)) = Home_settle out (c\<lparr>in_flight := 0\<rparr>)"
      using Cons.prems by (simp add: Home_commit_mounted Home_settle_fields)
    moreover have "foldl Home_step (Home_settle out (c\<lparr>in_flight := 0\<rparr>)) evs
        = Home_settle out (c\<lparr>in_flight := 0\<rparr>)"
      using Cons.prems by (simp add: Home_idle Home_settle_fields)
    ultimately show ?thesis using Settle Cons.prems by simp
  qed
qed

lemma App_pending:
  "effect_deps c = Some [] \<Longrightarrow> in_flight c = 1 \<Longrightarrow>
   foldl App_step c evs =
     (case first_settle evs of
        None \<Rightarrow> c
      | Some out \<Rightarrow> App_settle out (c\<lparr>in_flight := 0\<rparr>))"
proof (induction evs)
  case Nil
  show ?case by simp
next
  case (Cons ev evs)
  show ?case
  proof (cases ev)
    case Rerender
    with Cons show ?thesis by (simp add: App_commit_mounted)
  next
    case (Settle out)
    have "App_commit (App_settle out (c\<lparr>in_flight := 0\<rparr>)) = App_settle out (c\<lparr>in_flight := 0\<rparr>)"
      using Cons.prems by (simp add: App_commit_mounted App_settle_fields)
    moreover have "foldl App_step (App_settle out (c\<lparr>in_flight := 0\<rparr>)) evs
        = App_settle out (c\<lparr>in_flight := 0\<rparr>)"
      using Cons.prems by (simp add: App_idle App_settle_fields)
    ultimately show ?thesis using Settle Cons.prems by simp
  qed
qed

lemma Home_run_char:
  "Home_run evs =
     (case first_settle evs of
        None \<Rightarrow> Home_mount
      | Some out \<Rightarrow> Home_settle out (Home_mount\<lparr>in_flight := 0\<rparr>))"
  unfolding Home_run_def by (rule Home_pending) (simp_all add: Home_mount_eq)

lemma App_run_char:
  "App_run Production evs =
     (case first_settle evs of
        None \<Rightarrow> (App_mount Production)
      | Some out \<Rightarrow> App_settle out ((App_mount Production)\<lparr>in_flight := 0\<rparr>))"
  unfolding App_run_def by (rule App_pending) (simp_all add: App_mount_eq)

lemma Home_text_total: "\<exists>t. Home_badge_text c = Inr t"
proof -
  obtain s where "opt_prop (healthStatus c) ''status'' = Inr s"
    using opt_prop_total by blast
  then show ?thesis by (simp add: Home_badge_text_def)
qed

lemma Home_class_total: "\<exists>t. Home_badge_class c = Inr t"
proof -
  obtain s where "opt_prop (healthStatus c) ''status'' = Inr s"
    using opt_prop_total by blast
  then show ?thesis by (simp add: Home_badge_class_def)
qed

lemma App_label_total: "\<exists>t. App_label c = Inr t"
proof -
  obtain s where "opt_prop (healthStatus c) ''status'' = Inr s"
    using opt_prop_total by blast
  then show ?thesis by (simp add: App_label_def)
qed

lemma App_palette_total: "\<exists>t. App_palette c = Inr t"
proof -
  obtain s where "opt_prop (healthStatus c) ''status'' = Inr s"
    using opt_prop_total by blast
  then show ?thesis by (simp add: App_palette_def)
qed

lemma Home_text_loading: "loading c \<Longrightarrow> Home_badge_text c = Inr ''Connecting...''"
  by (simp add: Home_badge_text_def)

lemma App_label_loading: "loading c \<Longrightarrow> App_label c = Inr ''Connecting...''"
  by (simp add: App_label_def)

lemma Home_text_healthy:
  "\<not> loading c \<Longrightarrow> opt_prop (healthStatus c) ''status'' = Inr (JStr ''healthy'') \<Longrightarrow>
   Home_badge_text c = Inr (green_circle @ '' Backend Connected'')"
  by (simp add: Home_badge_text_def strict_eq_str_def)

lemma App_label_healthy:
  "\<not> loading c \<Longrightarrow> opt_prop (healthStatus c) ''status'' = Inr (JStr ''healthy'') \<Longrightarrow>
   App_label c = Inr (green_circle @ '' Backend Connected'')"
  by (simp add: App_label_def strict_eq_str_def)

lemma Home_text_other:
  assumes "\<not> loading c" and "opt_prop (healthStatus c) ''status'' \<noteq> Inr (JStr ''healthy'')"
  shows "Home_badge_text c = Inr (red_circle @ '' Backend Offline'')"
proof -
  obtain s where s: "opt_prop (healthStatus c) ''status'' = Inr s"
    using opt_prop_total by blast
  with assms have "s \<noteq> JStr ''healthy''" by simp
  with s assms(1) show ?thesis by (simp add: Home_badge_text_def strict_eq_str_def)
qed

lemma App_label_other:
  assumes "\<not> loading c" and "opt_prop (healthStatus c) ''status'' \<noteq> Inr (JStr ''healthy'')"
  shows "App_label c = Inr (red_circle @ '' Backend Offline'')"
proof -
  obtain s where s: "opt_prop (healthStatus c) ''status'' = Inr s"
    using opt_prop_total by blast
  with assms have "s \<noteq> JStr ''healthy''" by simp
  with s assms(1) show ?thesis by (simp add: App_label_def strict_eq_str_def)
qed

lemma Home_class_other:
  assumes "\<not> loading c" and "opt_prop (healthStatus c) ''status'' \<noteq> Inr (JStr ''healthy'')"
  shows "Home_badge_class c = Inr ''border-red-500 text-red-500''"
proof -
  obtain s where s: "opt_prop (healthStatus c) ''status'' = Inr s"
    using opt_prop_total by blast
  with assms have "s \<noteq> JStr ''healthy''" by simp
  with s assms(1) show ?thesis by (simp add: Home_badge_class_def strict_eq_str_def)
qed

lemma App_sx_other:
  assumes "opt_prop (healthStatus c) ''status'' \<noteq> Inr (JStr ''healthy'')"
  shows "App_sx c = Inr \<lparr>mb = 6, borderColor = ''error.main'', color = ''error.main''\<rparr>"
proof -
  obtain s where s: "opt_prop (healthStatus c) ''status'' = Inr s"
    using opt_prop_total by blast
  with assms have "s \<noteq> JStr ''healthy''" by simp
  with s show ?thesis by (simp add: App_sx_def App_palette_def strict_eq_str_def)
qed

lemma Home_rejected_state:
  "Home_catch reason (Home_mount\<lparr>in_flight := 0\<rparr>) =
     \<lparr>healthStatus =
        JObj [(''status'', JStr ''offline''), (''message'', JStr ''Backend not running'')],
      loading = False, effect_deps = Some [],
      requests = [''http://localhost:8000/health''], in_flight = 0, writes = 1\<rparr>"
  by (simp add: Home_mount_eq Home_catch_def setLoading_def setHealthStatus_def)

lemma App_rejected_state:
  "App_catch reason ((App_mount Production)\<lparr>in_flight := 0\<rparr>) =
     \<lparr>healthStatus =
        JObj [(''status'', JStr ''offline''), (''message'', JStr ''Backend not running'')],
      loading = False, effect_deps = Some [],
      requests = [''http://localhost:8000/health''], in_flight = 0, writes = 1\<rparr>"
  by (simp add: App_mount_eq App_catch_def setLoading_def setHealthStatus_def)

lemma Home_fulfilled_state:
  "Home_then res (Home_mount\<lparr>in_flight := 0\<rparr>) =
     \<lparr>healthStatus = data res,
      loading = False, effect_deps = Some [],
      requests = [''http://localhost:8000/health''], in_flight = 0, writes = 1\<rparr>"
  by (simp add: Home_mount_eq Home_then_def setLoading_def setHealthStatus_def)

lemma App_fulfilled_state:
  "App_then res ((App_mount Production)\<lparr>in_flight := 0\<rparr>) =
     \<lparr>healthStatus = data res,
      loading = False, effect_deps = Some [],
      requests = [''http://localhost:8000/health''], in_flight = 0, writes = 1\<rparr>"
  by (simp add: App_mount_eq App_then_def setLoading_def setHealthStatus_def)







lemma Home_run_append: "Home_run (evs @ evs') = foldl Home_step (Home_run evs) evs'"
  by (simp add: Home_run_def)

lemma App_run_append: "App_run b (evs @ evs') = foldl App_step (App_run b evs) evs'"
  by (simp add: App_run_def)



lemma App_mount_dev_eq:
  "App_mount Development =
     \<lparr>healthStatus = JNull, loading = True, effect_deps = Some [],
      requests = [''http://localhost:8000/health'', ''http://localhost:8000/health''],
      in_flight = 2, writes = 0\<rparr>"
  by (simp add: App_mount_def App_commit_def App_initial_def App_effect_def
      axios_get_def App_API_BASE_def App_deps_def)

lemma App_mount_deps: "effect_deps (App_mount b) = Some []"
  by (cases b) (simp_all add: App_mount_eq App_mount_dev_eq)

lemma App_mount_fresh:
  "healthStatus (App_mount b) = JNull \<and> loading (App_mount b) \<and> writes (App_mount b) = 0"
  by (cases b) (simp_all add: App_mount_eq App_mount_dev_eq)

lemma App_deliver:
  "effect_deps c = Some [] \<Longrightarrow> 0 < in_flight c \<Longrightarrow>
   App_step c (Settle out) = App_settle out (c\<lparr>in_flight := in_flight c - 1\<rparr>)"
  by (simp add: App_commit_mounted App_settle_fields)

lemma App_step_deps: "effect_deps c = Some [] \<Longrightarrow> effect_deps (App_step c ev) = Some []"
  by (cases ev) (simp_all add: App_commit_mounted App_settle_fields)





lemma App_fold_deps:
  "effect_deps c = Some [] \<Longrightarrow> effect_deps (foldl App_step c evs) = Some []"
  by (induction evs arbitrary: c) (simp_all add: App_step_deps)





lemma App_run_deps: "effect_deps (App_run b evs) = Some []"
  by (simp add: App_run_def App_fold_deps App_mount_deps)





lemma App_run_deliver:
  "0 < in_flight (App_run b evs) \<Longrightarrow>
   App_run b (evs @ [Settle out]) =
     App_settle out ((App_run b evs)\<lparr>in_flight := in_flight (App_run b evs) - 1\<rparr>)"
proof -
  assume "0 < in_flight (App_run b evs)"
  then have "App_step (App_run b evs) (Settle out) =
      App_settle out ((App_run b evs)\<lparr>in_flight := in_flight (App_run b evs) - 1\<rparr>)"
    by (intro App_deliver App_run_deps)
  then show ?thesis by (simp only: App_run_append foldl.simps)
qed

lemma Home_then_state:
  "healthStatus (Home_then res c) = data res \<and> loading (Home_then res c) = False
   \<and> writes (Home_then res c) = Suc (writes c)"
  by (simp add: Home_then_def setLoading_def setHealthStatus_def)

lemma App_then_state:
  "healthStatus (App_then res c) = data res \<and> loading (App_then res c) = False
   \<and> writes (App_then res c) = Suc (writes c)"
  by (simp add: App_then_def setLoading_def setHealthStatus_def)

lemma Home_catch_state:
  "healthStatus (Home_catch reason c) =
     JObj [(''status'', JStr ''offline''), (''message'', JStr ''Backend not running'')]
   \<and> loading (Home_catch reason c) = False
   \<and> writes (Home_catch reason c) = Suc (writes c)"
  by (simp add: Home_catch_def setLoading_def setHealthStatus_def)

lemma App_catch_state:
  "healthStatus (App_catch reason c) =
     JObj [(''status'', JStr ''offline''), (''message'', JStr ''Backend not running'')]
   \<and> loading (App_catch reason c) = False
   \<and> writes (App_catch reason c) = Suc (writes c)"
  by (simp add: App_catch_def setLoading_def setHealthStatus_def)

lemma Home_className_other:
  assumes "\<not> loading c" and "opt_prop (healthStatus c) ''status'' \<noteq> Inr (JStr ''healthy'')"
  shows "Home_className c =
           Inr ''inline-block px-4 py-2 rounded-full border mb-12 border-red-500 text-red-500''"
  using Home_class_other [OF assms] by (simp add: Home_className_def)







section \<open>Properties of the health badge\<close>

text \<open>
  Claim C1. The badge text depends on the display state only, identically on both pages:
  while \<open>loading\<close> holds it is \<open>Connecting...\<close>; once resolved, a \<open>status\<close> strictly equal
  to the string \<open>healthy\<close> gives the "Backend Connected" literal and every other status
  gives the "Backend Offline" literal; no fourth text exists. In the sources the two
  resolved literals start with a status emoji and a space (U+1F7E2 and U+1F534).
\<close>

theorem badge_text_cases:
  "(loading c \<longrightarrow>
      Home_badge_text c = Inr ''Connecting...'' \<and> App_label c = Inr ''Connecting...'')
   \<and> (\<not> loading c \<and> opt_prop (healthStatus c) ''status'' = Inr (JStr ''healthy'') \<longrightarrow>
      Home_badge_text c = Inr (green_circle @ '' Backend Connected'')
      \<and> App_label c = Inr (green_circle @ '' Backend Connected''))
   \<and> (\<not> loading c \<and> opt_prop (healthStatus c) ''status'' \<noteq> Inr (JStr ''healthy'') \<longrightarrow>
      Home_badge_text c = Inr (red_circle @ '' Backend Offline'')
      \<and> App_label c = Inr (red_circle @ '' Backend Offline''))
   \<and> Home_badge_text c \<in>
        {Inr ''Connecting...'', Inr (green_circle @ '' Backend Connected''),
         Inr (red_circle @ '' Backend Offline'')}
   \<and> App_label c \<in>
        {Inr ''Connecting...'', Inr (green_circle @ '' Backend Connected''),
         Inr (red_circle @ '' Backend Offline'')}
   \<and> (loading c' = loading c \<and> healthStatus c' = healthStatus c \<longrightarrow>
        Home_badge_text c' = Home_badge_text c \<and> App_label c' = App_label c)"
proof -
  have a: "loading c \<longrightarrow>
      Home_badge_text c = Inr ''Connecting...'' \<and> App_label c = Inr ''Connecting...''"
    by (simp add: Home_text_loading App_label_loading)
  have b: "\<not> loading c \<and> opt_prop (healthStatus c) ''status'' = Inr (JStr ''healthy'') \<longrightarrow>
      Home_badge_text c = Inr (green_circle @ '' Backend Connected'')
      \<and> App_label c = Inr (green_circle @ '' Backend Connected'')"
    by (simp add: Home_text_healthy App_label_healthy)
  have d: "\<not> loading c \<and> opt_prop (healthStatus c) ''status'' \<noteq> Inr (JStr ''healthy'') \<longrightarrow>
      Home_badge_text c = Inr (red_circle @ '' Backend Offline'')
      \<and> App_label c = Inr (red_circle @ '' Backend Offline'')"
    using Home_text_other App_label_other by blast
  have e: "Home_badge_text c \<in>
        {Inr ''Connecting...'', Inr (green_circle @ '' Backend Connected''),
         Inr (red_circle @ '' Backend Offline'')}"
    using a b d by blast
  have f: "App_label c \<in>
        {Inr ''Connecting...'', Inr (green_circle @ '' Backend Connected''),
         Inr (red_circle @ '' Backend Offline'')}"
    using a b d by blast
  have g: "loading c' = loading c \<and> healthStatus c' = healthStatus c \<longrightarrow>
        Home_badge_text c' = Home_badge_text c \<and> App_label c' = App_label c"
    by (simp add: Home_badge_text_def App_label_def)
  from a b d e f g show ?thesis by blast
qed

theorem badge_text_cases_witness:
  "loading Home_mount
   \<and> Home_badge_text Home_mount = Inr ''Connecting...''
   \<and> App_label Home_mount = Inr ''Connecting...''
   \<and> Home_badge_text (Home_then \<lparr>http_status = 200, data = JObj [(''status'', JStr ''healthy'')]\<rparr> Home_mount)
       = Inr (green_circle @ '' Backend Connected'')
   \<and> App_label (App_then \<lparr>http_status = 200, data = JObj [(''status'', JStr ''healthy'')]\<rparr> (App_mount Production))
       = Inr (green_circle @ '' Backend Connected'')
   \<and> Home_badge_text (Home_then \<lparr>http_status = 200, data = JObj [(''status'', JStr ''degraded'')]\<rparr> Home_mount)
       = Inr (red_circle @ '' Backend Offline'')
   \<and> App_label (App_then \<lparr>http_status = 200, data = JObj [(''status'', JStr ''degraded'')]\<rparr> (App_mount Production))
       = Inr (red_circle @ '' Backend Offline'')
   \<and> Home_badge_text (Home_mount\<lparr>writes := 7\<rparr>) = Home_badge_text Home_mount"
  using badge_text_cases [of Home_mount "Home_mount\<lparr>writes := 7\<rparr>"]
    badge_text_cases [of "Home_then \<lparr>http_status = 200, data = JObj [(''status'', JStr ''healthy'')]\<rparr> Home_mount" Home_mount]
    badge_text_cases [of "App_then \<lparr>http_status = 200, data = JObj [(''status'', JStr ''healthy'')]\<rparr> (App_mount Production)" Home_mount]
    badge_text_cases [of "Home_then \<lparr>http_status = 200, data = JObj [(''status'', JStr ''degraded'')]\<rparr> Home_mount" Home_mount]
    badge_text_cases [of "App_then \<lparr>http_status = 200, data = JObj [(''status'', JStr ''degraded'')]\<rparr> (App_mount Production)" Home_mount]
  by (simp add: Home_mount_eq App_mount_eq Home_then_def App_then_def setLoading_def
      setHealthStatus_def)

text \<open>
  Claim C2. When the health request rejects, whatever the reason and however many renders
  come before or after, the stored state has \<open>status = offline\<close> and
  \<open>message = Backend not running\<close>, \<open>loading\<close> is false, and the badge carries the
  negative style: the red border and text classes on the Next.js page, the \<open>error.main\<close>
  palette entry on the MUI page. On the MUI page the same holds in either build right
  after any rejection that reaches the component.
\<close>

theorem rejection_gives_offline:
  "(first_settle evs = Some (Rejected reason) \<longrightarrow>
     get_prop (healthStatus (Home_run evs)) ''status'' = Inr (JStr ''offline'')
     \<and> get_prop (healthStatus (Home_run evs)) ''message'' = Inr (JStr ''Backend not running'')
     \<and> loading (Home_run evs) = False
     \<and> Home_className (Home_run evs) =
         Inr ''inline-block px-4 py-2 rounded-full border mb-12 border-red-500 text-red-500''
     \<and> get_prop (healthStatus (App_run Production evs)) ''status'' = Inr (JStr ''offline'')
     \<and> get_prop (healthStatus (App_run Production evs)) ''message''
         = Inr (JStr ''Backend not running'')
     \<and> loading (App_run Production evs) = False
     \<and> App_sx (App_run Production evs) =
         Inr \<lparr>mb = 6, borderColor = ''error.main'', color = ''error.main''\<rparr>)
   \<and> (0 < in_flight (App_run b evs) \<longrightarrow>
     get_prop (healthStatus (App_run b (evs @ [Settle (Rejected reason)]))) ''status''
         = Inr (JStr ''offline'')
     \<and> get_prop (healthStatus (App_run b (evs @ [Settle (Rejected reason)]))) ''message''
         = Inr (JStr ''Backend not running'')
     \<and> loading (App_run b (evs @ [Settle (Rejected reason)])) = False
     \<and> App_sx (App_run b (evs @ [Settle (Rejected reason)])) =
         Inr \<lparr>mb = 6, borderColor = ''error.main'', color = ''error.main''\<rparr>)"
  (is "(_ \<longrightarrow> ?first) \<and> (_ \<longrightarrow> ?any)")
proof (rule conjI; rule impI)
  assume r: "first_settle evs = Some (Rejected reason)"
  have h: "Home_run evs = Home_catch reason (Home_mount\<lparr>in_flight := 0\<rparr>)"
    using r by (simp add: Home_run_char)
  have a: "App_run Production evs = App_catch reason ((App_mount Production)\<lparr>in_flight := 0\<rparr>)"
    using r by (simp add: App_run_char)
  have h1: "get_prop (healthStatus (Home_run evs)) ''status'' = Inr (JStr ''offline'')"
    unfolding h Home_rejected_state by simp
  have h2: "get_prop (healthStatus (Home_run evs)) ''message'' = Inr (JStr ''Backend not running'')"
    unfolding h Home_rejected_state by simp
  have h3: "loading (Home_run evs) = False"
    unfolding h Home_rejected_state by simp
  have h4: "Home_className (Home_run evs) =
         Inr ''inline-block px-4 py-2 rounded-full border mb-12 border-red-500 text-red-500''"
    unfolding h Home_rejected_state
    by (simp add: Home_className_def Home_badge_class_def strict_eq_str_def)
  have a1: "get_prop (healthStatus (App_run Production evs)) ''status'' = Inr (JStr ''offline'')"
    unfolding a App_rejected_state by simp
  have a2: "get_prop (healthStatus (App_run Production evs)) ''message'' = Inr (JStr ''Backend not running'')"
    unfolding a App_rejected_state by simp
  have a3: "loading (App_run Production evs) = False"
    unfolding a App_rejected_state by simp
  have a4: "App_sx (App_run Production evs) =
         Inr \<lparr>mb = 6, borderColor = ''error.main'', color = ''error.main''\<rparr>"
    unfolding a App_rejected_state
    by (simp add: App_sx_def App_palette_def strict_eq_str_def)
  from h1 h2 h3 h4 a1 a2 a3 a4
  show "get_prop (healthStatus (Home_run evs)) ''status'' = Inr (JStr ''offline'')
     \<and> get_prop (healthStatus (Home_run evs)) ''message'' = Inr (JStr ''Backend not running'')
     \<and> loading (Home_run evs) = False
     \<and> Home_className (Home_run evs) =
         Inr ''inline-block px-4 py-2 rounded-full border mb-12 border-red-500 text-red-500''
     \<and> get_prop (healthStatus (App_run Production evs)) ''status'' = Inr (JStr ''offline'')
     \<and> get_prop (healthStatus (App_run Production evs)) ''message'' = Inr (JStr ''Backend not running'')
     \<and> loading (App_run Production evs) = False
     \<and> App_sx (App_run Production evs) =
         Inr \<lparr>mb = 6, borderColor = ''error.main'', color = ''error.main''\<rparr>"
    by blast
next
  assume "0 < in_flight (App_run b evs)"
  then have d: "App_run b (evs @ [Settle (Rejected reason)]) =
      App_catch reason ((App_run b evs)\<lparr>in_flight := in_flight (App_run b evs) - 1\<rparr>)"
    by (simp add: App_run_deliver)
  show ?any
    unfolding d
    by (simp add: App_catch_def setLoading_def setHealthStatus_def App_sx_def App_palette_def
        strict_eq_str_def)
qed

theorem rejection_gives_offline_witness:
  "first_settle [Rerender, Settle (Rejected (JStr ''ECONNREFUSED'')), Rerender]
     = Some (Rejected (JStr ''ECONNREFUSED''))
   \<and> get_prop (healthStatus (Home_run [Rerender, Settle (Rejected (JStr ''ECONNREFUSED'')), Rerender]))
        ''status'' = Inr (JStr ''offline'')
   \<and> App_sx (App_run Production [Rerender, Settle (Rejected (JStr ''ECONNREFUSED'')), Rerender])
      = Inr \<lparr>mb = 6, borderColor = ''error.main'', color = ''error.main''\<rparr>
   \<and> 0 < in_flight (App_run Development
        [Settle (Fulfilled \<lparr>http_status = 200, data = JObj [(''status'', JStr ''healthy'')]\<rparr>)])
   \<and> get_prop (healthStatus (App_run Development
        ([Settle (Fulfilled \<lparr>http_status = 200, data = JObj [(''status'', JStr ''healthy'')]\<rparr>)]
         @ [Settle (Rejected (JStr ''ECONNREFUSED''))]))) ''status'' = Inr (JStr ''offline'')"
proof -
  have f: "0 < in_flight (App_run Development
        [Settle (Fulfilled \<lparr>http_status = 200, data = JObj [(''status'', JStr ''healthy'')]\<rparr>)])"
    by (simp add: App_run_def App_mount_dev_eq App_commit_def App_deps_def App_then_def
        setLoading_def setHealthStatus_def)
  from f rejection_gives_offline
    [of "[Rerender, Settle (Rejected (JStr ''ECONNREFUSED'')), Rerender]" "JStr ''ECONNREFUSED''"
        Production]
    rejection_gives_offline
    [of "[Settle (Fulfilled \<lparr>http_status = 200, data = JObj [(''status'', JStr ''healthy'')]\<rparr>)]"
        "JStr ''ECONNREFUSED''" Development]
  show ?thesis by simp
qed




text \<open>
  Claim C4. While loading, both pages show \<open>Connecting...\<close>. The Next.js page gives the
  badge the neutral muted classes; the MUI page computes the colours of the chip from
  \<open>healthStatus\<close> alone, so in either build its badge is drawn in \<open>error.main\<close>, the same
  style it has after a rejected request.
\<close>

theorem App_loading_badge_style:
  "loading (App_mount b)
   \<and> App_label (App_mount b) = Inr ''Connecting...''
   \<and> App_sx (App_mount b) = Inr \<lparr>mb = 6, borderColor = ''error.main'', color = ''error.main''\<rparr>
   \<and> App_sx (App_mount b) = App_sx (App_run b [Settle (Rejected JNull)])
   \<and> Home_className Home_mount =
       Inr ''inline-block px-4 py-2 rounded-full border mb-12 border-text-muted text-text-muted''"
proof -
  have m: "healthStatus (App_mount b) = JNull \<and> loading (App_mount b)"
    by (simp add: App_mount_fresh)
  have "0 < in_flight (App_run b [])"
    by (cases b) (simp_all add: App_run_def App_mount_eq App_mount_dev_eq)
  then have "App_run b ([] @ [Settle (Rejected JNull)]) =
      App_settle (Rejected JNull) ((App_run b [])\<lparr>in_flight := in_flight (App_run b []) - 1\<rparr>)"
    by (rule App_run_deliver)
  then have "App_sx (App_run b [Settle (Rejected JNull)])
      = Inr \<lparr>mb = 6, borderColor = ''error.main'', color = ''error.main''\<rparr>"
    by (simp add: App_catch_def setLoading_def setHealthStatus_def App_sx_def App_palette_def
        strict_eq_str_def)
  moreover have "App_sx (App_mount b)
      = Inr \<lparr>mb = 6, borderColor = ''error.main'', color = ''error.main''\<rparr>"
    using m by (simp add: App_sx_def App_palette_def strict_eq_str_def)
  moreover have "Home_className Home_mount =
       Inr ''inline-block px-4 py-2 rounded-full border mb-12 border-text-muted text-text-muted''"
    by (simp add: Home_mount_eq Home_className_def Home_badge_class_def)
  moreover have "App_label (App_mount b) = Inr ''Connecting...''"
    using m by (simp add: App_label_def)
  ultimately show ?thesis using m by simp
qed

text \<open>
  Claim C5, as stated, fails: a successful response whose body has a \<open>message\<close> property
  is stored with that property.
\<close>

theorem backend_message_counterexample:
  "opt_prop (healthStatus (Home_run [Settle (Fulfilled
        \<lparr>http_status = 200,
         data = JObj [(''status'', JStr ''healthy''), (''message'', JStr ''All systems go'')]\<rparr>)]))
      ''message'' = Inr (JStr ''All systems go'')
   \<and> opt_prop (healthStatus (App_run Production [Settle (Fulfilled
        \<lparr>http_status = 200,
         data = JObj [(''status'', JStr ''healthy''), (''message'', JStr ''All systems go'')]\<rparr>)]))
      ''message'' \<noteq> Inr JUndefined"
  by (simp add: Home_run_char App_run_char Home_fulfilled_state App_fulfilled_state)

text \<open>
  Claim C5, amended. The state synthesised after a rejection always carries
  \<open>message = Backend not running\<close>; a state stored from a successful response carries
  exactly the \<open>message\<close> of the response body, and so none when the body has none. On the
  MUI page this holds in either build for every settlement that reaches the component.
\<close>

theorem message_follows_body:
  "(first_settle evs = Some (Fulfilled res) \<longrightarrow>
      opt_prop (healthStatus (Home_run evs)) ''message'' = opt_prop (data res) ''message''
      \<and> opt_prop (healthStatus (App_run Production evs)) ''message''
          = opt_prop (data res) ''message'')
   \<and> (first_settle evs = Some (Rejected reason) \<longrightarrow>
      opt_prop (healthStatus (Home_run evs)) ''message'' = Inr (JStr ''Backend not running'')
      \<and> opt_prop (healthStatus (App_run Production evs)) ''message''
          = Inr (JStr ''Backend not running''))
   \<and> (0 < in_flight (App_run b evs) \<longrightarrow>
      opt_prop (healthStatus (App_run b (evs @ [Settle (Fulfilled res)]))) ''message''
          = opt_prop (data res) ''message''
      \<and> opt_prop (healthStatus (App_run b (evs @ [Settle (Rejected reason)]))) ''message''
          = Inr (JStr ''Backend not running''))"
proof -
  have a: "(first_settle evs = Some (Fulfilled res) \<longrightarrow>
      opt_prop (healthStatus (Home_run evs)) ''message'' = opt_prop (data res) ''message''
      \<and> opt_prop (healthStatus (App_run Production evs)) ''message''
          = opt_prop (data res) ''message'')
   \<and> (first_settle evs = Some (Rejected reason) \<longrightarrow>
      opt_prop (healthStatus (Home_run evs)) ''message'' = Inr (JStr ''Backend not running'')
      \<and> opt_prop (healthStatus (App_run Production evs)) ''message''
          = Inr (JStr ''Backend not running''))"
    by (simp add: Home_run_char App_run_char Home_fulfilled_state App_fulfilled_state
        Home_rejected_state App_rejected_state)
  have b: "0 < in_flight (App_run b evs) \<longrightarrow>
      opt_prop (healthStatus (App_run b (evs @ [Settle (Fulfilled res)]))) ''message''
          = opt_prop (data res) ''message''
      \<and> opt_prop (healthStatus (App_run b (evs @ [Settle (Rejected reason)]))) ''message''
          = Inr (JStr ''Backend not running'')"
    by (simp add: App_run_deliver App_then_state App_catch_state)
  from a b show ?thesis by simp
qed

theorem message_follows_body_witness:
  "opt_prop (healthStatus (Home_run [Settle (Fulfilled
        \<lparr>http_status = 200, data = JObj [(''status'', JStr ''healthy'')]\<rparr>)])) ''message''
      = Inr JUndefined
   \<and> opt_prop (healthStatus (App_run Production [Rerender, Settle (Rejected (JStr ''timeout''))]))
        ''message''
      = Inr (JStr ''Backend not running'')
   \<and> 0 < in_flight (App_run Development [Rerender])
   \<and> opt_prop (healthStatus (App_run Development ([Rerender] @ [Settle (Fulfilled
        \<lparr>http_status = 200, data = JObj [(''status'', JStr ''healthy'')]\<rparr>)]))) ''message''
      = Inr JUndefined"
proof -
  have f: "0 < in_flight (App_run Development [Rerender])"
    by (simp add: App_run_def App_mount_dev_eq App_commit_mounted)
  from f message_follows_body
      [of "[Settle (Fulfilled \<lparr>http_status = 200, data = JObj [(''status'', JStr ''healthy'')]\<rparr>)]"
          "\<lparr>http_status = 200, data = JObj [(''status'', JStr ''healthy'')]\<rparr>" JNull Production]
    message_follows_body
      [of "[Rerender, Settle (Rejected (JStr ''timeout''))]" "\<lparr>http_status = 200, data = JNull\<rparr>"
          "JStr ''timeout''" Production]
    message_follows_body
      [of "[Rerender]" "\<lparr>http_status = 200, data = JObj [(''status'', JStr ''healthy'')]\<rparr>"
          JNull Development]
  show ?thesis by simp
qed




text \<open>
  Claim C7, as stated, fails for one of the causes it lists. A successful response whose
  body is not JSON does not reject: axios hands the raw text on, the success handler
  stores it, and the resolved state differs from the one a refused connection leaves.
\<close>

theorem malformed_body_not_offline:
  "healthStatus (Home_run [Settle (Fulfilled \<lparr>http_status = 200, data = JStr ''<html>''\<rparr>)])
     = JStr ''<html>''
   \<and> healthStatus (Home_run [Settle (Rejected (JStr ''ECONNREFUSED''))])
     = JObj [(''status'', JStr ''offline''), (''message'', JStr ''Backend not running'')]
   \<and> Home_run [Settle (Fulfilled \<lparr>http_status = 200, data = JStr ''<html>''\<rparr>)]
     \<noteq> Home_run [Settle (Rejected (JStr ''ECONNREFUSED''))]
   \<and> App_run Production [Settle (Fulfilled \<lparr>http_status = 200, data = JStr ''<html>''\<rparr>)]
     \<noteq> App_run Production [Settle (Rejected (JStr ''ECONNREFUSED''))]"
  by (simp add: Home_run_char App_run_char Home_fulfilled_state App_fulfilled_state
      Home_rejected_state App_rejected_state)

text \<open>
  Claim C7, amended. The failure handler takes no argument: two rejections of the health
  request with different reasons (DNS failure, connection refused, non-2xx status,
  timeout), at the same point of the same event sequence, lead to the same component
  state and so to the same badge text and style, on both pages and in both builds. A
  malformed body of a successful response is not a rejection: the raw text becomes
  \<open>healthStatus\<close>, without \<open>message\<close>, and the badge is the same negative
  "Backend Offline" badge that a rejection gives.
\<close>

theorem rejection_cause_ignored:
  "Home_catch r1 c = Home_catch r2 c
   \<and> App_catch r1 c = App_catch r2 c
   \<and> Home_run (pre @ Settle (Rejected r1) # post) = Home_run (pre @ Settle (Rejected r2) # post)
   \<and> App_run b (pre @ Settle (Rejected r1) # post) = App_run b (pre @ Settle (Rejected r2) # post)
   \<and> Home_badge_text (Home_run (pre @ Settle (Rejected r1) # post))
       = Home_badge_text (Home_run (pre @ Settle (Rejected r2) # post))
   \<and> Home_className (Home_run (pre @ Settle (Rejected r1) # post))
       = Home_className (Home_run (pre @ Settle (Rejected r2) # post))
   \<and> App_label (App_run b (pre @ Settle (Rejected r1) # post))
       = App_label (App_run b (pre @ Settle (Rejected r2) # post))
   \<and> App_sx (App_run b (pre @ Settle (Rejected r1) # post))
       = App_sx (App_run b (pre @ Settle (Rejected r2) # post))
   \<and> (data res = JStr t \<longrightarrow>
        healthStatus (Home_then res c) = JStr t
        \<and> healthStatus (App_then res c) = JStr t
        \<and> opt_prop (healthStatus (Home_then res c)) ''message'' = Inr JUndefined
        \<and> opt_prop (healthStatus (App_then res c)) ''message'' = Inr JUndefined
        \<and> Home_badge_text (Home_then res c) = Inr (red_circle @ '' Backend Offline'')
        \<and> Home_badge_text (Home_then res c) = Home_badge_text (Home_catch r1 c)
        \<and> Home_className (Home_then res c) = Home_className (Home_catch r1 c)
        \<and> App_label (App_then res c) = Inr (red_circle @ '' Backend Offline'')
        \<and> App_label (App_then res c) = App_label (App_catch r1 c)
        \<and> App_sx (App_then res c) = App_sx (App_catch r1 c))"
proof -
  have h: "Home_run (pre @ Settle (Rejected r1) # post) = Home_run (pre @ Settle (Rejected r2) # post)"
    unfolding Home_run_append by (simp add: Home_catch_def)
  have a: "App_run b (pre @ Settle (Rejected r1) # post) = App_run b (pre @ Settle (Rejected r2) # post)"
    unfolding App_run_append by (simp add: App_catch_def)
  have k: "Home_catch r1 c = Home_catch r2 c \<and> App_catch r1 c = App_catch r2 c"
    by (simp add: Home_catch_def App_catch_def)
  have m: "healthStatus (Home_then res c) = JStr t
        \<and> healthStatus (App_then res c) = JStr t
        \<and> opt_prop (healthStatus (Home_then res c)) ''message'' = Inr JUndefined
        \<and> opt_prop (healthStatus (App_then res c)) ''message'' = Inr JUndefined
        \<and> Home_badge_text (Home_then res c) = Inr (red_circle @ '' Backend Offline'')
        \<and> Home_badge_text (Home_then res c) = Home_badge_text (Home_catch r1 c)
        \<and> Home_className (Home_then res c) = Home_className (Home_catch r1 c)
        \<and> App_label (App_then res c) = Inr (red_circle @ '' Backend Offline'')
        \<and> App_label (App_then res c) = App_label (App_catch r1 c)
        \<and> App_sx (App_then res c) = App_sx (App_catch r1 c)"
    if d: "data res = JStr t"
  proof -
    have t: "\<not> loading (Home_then res c)"
        "opt_prop (healthStatus (Home_then res c)) ''status'' \<noteq> Inr (JStr ''healthy'')"
        "\<not> loading (App_then res c)"
        "opt_prop (healthStatus (App_then res c)) ''status'' \<noteq> Inr (JStr ''healthy'')"
      using d by (simp_all add: Home_then_state App_then_state)
    have r: "\<not> loading (Home_catch r1 c)"
        "opt_prop (healthStatus (Home_catch r1 c)) ''status'' \<noteq> Inr (JStr ''healthy'')"
        "\<not> loading (App_catch r1 c)"
        "opt_prop (healthStatus (App_catch r1 c)) ''status'' \<noteq> Inr (JStr ''healthy'')"
      by (simp_all add: Home_catch_state App_catch_state)
    have "healthStatus (Home_then res c) = JStr t \<and> healthStatus (App_then res c) = JStr t"
      using d by (simp add: Home_then_state App_then_state)
    then show ?thesis
      using t r
      by (simp add: Home_text_other Home_className_other App_label_other App_sx_other)
  qed
  have hb: "Home_badge_text (Home_run (pre @ Settle (Rejected r1) # post))
       = Home_badge_text (Home_run (pre @ Settle (Rejected r2) # post))
      \<and> Home_className (Home_run (pre @ Settle (Rejected r1) # post))
       = Home_className (Home_run (pre @ Settle (Rejected r2) # post))"
    by (simp only: h simp_thms)
  have ab: "App_label (App_run b (pre @ Settle (Rejected r1) # post))
       = App_label (App_run b (pre @ Settle (Rejected r2) # post))
      \<and> App_sx (App_run b (pre @ Settle (Rejected r1) # post))
       = App_sx (App_run b (pre @ Settle (Rejected r2) # post))"
    by (simp only: a simp_thms)
  from h a k hb ab m show ?thesis by blast
qed

theorem rejection_cause_ignored_witness:
  "Home_run ([] @ Settle (Rejected (JObj [(''code'', JStr ''ENOTFOUND'')])) # [])
     = Home_run ([] @ Settle (Rejected (JObj [(''code'', JStr ''ECONNREFUSED'')])) # [])
   \<and> App_run Development ([] @ Settle (Rejected (JObj [(''code'', JStr ''ENOTFOUND'')])) # [])
     = App_run Development ([] @ Settle (Rejected (JObj [(''code'', JStr ''ECONNREFUSED'')])) # [])
   \<and> data \<lparr>http_status = 200, data = JStr ''<html>''\<rparr> = JStr ''<html>''
   \<and> Home_badge_text (Home_then \<lparr>http_status = 200, data = JStr ''<html>''\<rparr> Home_mount)
     = Home_badge_text (Home_catch (JObj [(''code'', JStr ''ENOTFOUND'')]) Home_mount)
   \<and> healthStatus (Home_then \<lparr>http_status = 200, data = JStr ''<html>''\<rparr> Home_mount)
     = JStr ''<html>''"
proof -
  have d: "data \<lparr>http_status = 200, data = JStr ''<html>''\<rparr> = JStr ''<html>''"
    by simp
  from d rejection_cause_ignored
    [of "JObj [(''code'', JStr ''ENOTFOUND'')]" Home_mount
        "JObj [(''code'', JStr ''ECONNREFUSED'')]" "[]" "[]" Development
        "\<lparr>http_status = 200, data = JStr ''<html>''\<rparr>" "''<html>''"]
  show ?thesis by blast
qed




text \<open>
  Claim C9. The success handler stores \<open>res.data\<close> as it is. When the stored body has no
  \<open>status\<close> property, or one that is not exactly the string \<open>healthy\<close>, the resolved badge
  is the negative "Backend Offline" one on both pages, although the request succeeded. On
  the MUI page this holds in either build for every response that reaches the component.
\<close>

theorem response_stored_verbatim:
  "healthStatus (Home_then res c) = data res
   \<and> healthStatus (App_then res c) = data res
   \<and> (first_settle evs = Some (Fulfilled res) \<longrightarrow>
        healthStatus (Home_run evs) = data res
        \<and> healthStatus (App_run Production evs) = data res
        \<and> \<not> loading (Home_run evs)
        \<and> \<not> loading (App_run Production evs))
   \<and> (first_settle evs = Some (Fulfilled res)
        \<and> opt_prop (data res) ''status'' \<noteq> Inr (JStr ''healthy'') \<longrightarrow>
        Home_badge_text (Home_run evs) = Inr (red_circle @ '' Backend Offline'')
        \<and> Home_className (Home_run evs) =
            Inr ''inline-block px-4 py-2 rounded-full border mb-12 border-red-500 text-red-500''
        \<and> App_label (App_run Production evs) = Inr (red_circle @ '' Backend Offline'')
        \<and> App_sx (App_run Production evs) =
            Inr \<lparr>mb = 6, borderColor = ''error.main'', color = ''error.main''\<rparr>)
   \<and> (0 < in_flight (App_run b evs) \<longrightarrow>
        healthStatus (App_run b (evs @ [Settle (Fulfilled res)])) = data res
        \<and> \<not> loading (App_run b (evs @ [Settle (Fulfilled res)])))
   \<and> (0 < in_flight (App_run b evs)
        \<and> opt_prop (data res) ''status'' \<noteq> Inr (JStr ''healthy'') \<longrightarrow>
        App_label (App_run b (evs @ [Settle (Fulfilled res)]))
            = Inr (red_circle @ '' Backend Offline'')
        \<and> App_sx (App_run b (evs @ [Settle (Fulfilled res)])) =
            Inr \<lparr>mb = 6, borderColor = ''error.main'', color = ''error.main''\<rparr>)"
proof -
  have a: "healthStatus (Home_then res c) = data res \<and> healthStatus (App_then res c) = data res"
    by (simp add: Home_then_def App_then_def setLoading_def setHealthStatus_def)
  have b: "first_settle evs = Some (Fulfilled res) \<longrightarrow>
        healthStatus (Home_run evs) = data res
        \<and> healthStatus (App_run Production evs) = data res
        \<and> \<not> loading (Home_run evs)
        \<and> \<not> loading (App_run Production evs)"
    by (simp add: Home_run_char App_run_char Home_fulfilled_state App_fulfilled_state)
  have d: "Home_badge_text (Home_run evs) = Inr (red_circle @ '' Backend Offline'')
        \<and> Home_className (Home_run evs) =
            Inr ''inline-block px-4 py-2 rounded-full border mb-12 border-red-500 text-red-500''
        \<and> App_label (App_run Production evs) = Inr (red_circle @ '' Backend Offline'')
        \<and> App_sx (App_run Production evs) =
            Inr \<lparr>mb = 6, borderColor = ''error.main'', color = ''error.main''\<rparr>"
    if f: "first_settle evs = Some (Fulfilled res)"
      and s: "opt_prop (data res) ''status'' \<noteq> Inr (JStr ''healthy'')"
  proof -
    from b f have h: "healthStatus (Home_run evs) = data res" "\<not> loading (Home_run evs)"
      and p: "healthStatus (App_run Production evs) = data res"
        "\<not> loading (App_run Production evs)"
      by simp_all
    with s show ?thesis
      by (simp add: Home_text_other Home_className_other App_label_other App_sx_other)
  qed
  have e: "0 < in_flight (App_run b evs) \<longrightarrow>
        healthStatus (App_run b (evs @ [Settle (Fulfilled res)])) = data res
        \<and> \<not> loading (App_run b (evs @ [Settle (Fulfilled res)]))"
    by (simp add: App_run_deliver App_then_state)
  have g: "App_label (App_run b (evs @ [Settle (Fulfilled res)]))
            = Inr (red_circle @ '' Backend Offline'')
        \<and> App_sx (App_run b (evs @ [Settle (Fulfilled res)])) =
            Inr \<lparr>mb = 6, borderColor = ''error.main'', color = ''error.main''\<rparr>"
    if f: "0 < in_flight (App_run b evs)"
      and s: "opt_prop (data res) ''status'' \<noteq> Inr (JStr ''healthy'')"
  proof -
    from e f have "healthStatus (App_run b (evs @ [Settle (Fulfilled res)])) = data res"
        "\<not> loading (App_run b (evs @ [Settle (Fulfilled res)]))"
      by simp_all
    with s show ?thesis by (simp add: App_label_other App_sx_other)
  qed
  from a b d e g show ?thesis by blast
qed

theorem response_stored_verbatim_witness:
  "first_settle [Settle (Fulfilled \<lparr>http_status = 200, data = JObj [(''status'', JStr ''ok'')]\<rparr>)]
     = Some (Fulfilled \<lparr>http_status = 200, data = JObj [(''status'', JStr ''ok'')]\<rparr>)
   \<and> opt_prop (data \<lparr>http_status = 200, data = JObj [(''status'', JStr ''ok'')]\<rparr>) ''status''
       \<noteq> Inr (JStr ''healthy'')
   \<and> healthStatus (Home_run [Settle (Fulfilled
         \<lparr>http_status = 200, data = JObj [(''status'', JStr ''ok'')]\<rparr>)])
       = JObj [(''status'', JStr ''ok'')]
   \<and> Home_badge_text (Home_run [Settle (Fulfilled
         \<lparr>http_status = 200, data = JObj [(''status'', JStr ''ok'')]\<rparr>)])
       = Inr (red_circle @ '' Backend Offline'')
   \<and> App_sx (App_run Production [Settle (Fulfilled
         \<lparr>http_status = 200, data = JObj [(''status'', JStr ''ok'')]\<rparr>)])
       = Inr \<lparr>mb = 6, borderColor = ''error.main'', color = ''error.main''\<rparr>
   \<and> 0 < in_flight (App_run Development [])
   \<and> App_label (App_run Development ([] @ [Settle (Fulfilled
         \<lparr>http_status = 200, data = JObj [(''status'', JStr ''ok'')]\<rparr>)]))
       = Inr (red_circle @ '' Backend Offline'')"
proof -
  have f: "0 < in_flight (App_run Development [])"
    by (simp add: App_run_def App_mount_dev_eq)
  from f response_stored_verbatim
    [of "\<lparr>http_status = 200, data = JObj [(''status'', JStr ''ok'')]\<rparr>" Home_mount
        "[Settle (Fulfilled \<lparr>http_status = 200, data = JObj [(''status'', JStr ''ok'')]\<rparr>)]"
        Production]
    response_stored_verbatim
    [of "\<lparr>http_status = 200, data = JObj [(''status'', JStr ''ok'')]\<rparr>" Home_mount
        "[]" Development]
  show ?thesis by simp
qed


text \<open>
  Claim C10. Rendering the badge never throws, on either page and in any state. A plain
  property read of \<open>null\<close> would throw a TypeError; with the optional chain the state
  \<open>loading = false\<close>, \<open>healthStatus = null\<close> renders the negative "Backend Offline" badge.
\<close>

theorem badge_render_total:
  "(\<exists>cls. Home_className c = Inr cls)
   \<and> (\<exists>t. Home_badge_text c = Inr t)
   \<and> (\<exists>l. App_label c = Inr l)
   \<and> (\<exists>sx. App_sx c = Inr sx)
   \<and> get_prop JNull ''status'' = Inl TypeError
   \<and> (\<not> loading c \<and> healthStatus c = JNull \<longrightarrow>
        Home_badge_text c = Inr (red_circle @ '' Backend Offline'')
        \<and> Home_className c =
            Inr ''inline-block px-4 py-2 rounded-full border mb-12 border-red-500 text-red-500''
        \<and> App_label c = Inr (red_circle @ '' Backend Offline'')
        \<and> App_sx c = Inr \<lparr>mb = 6, borderColor = ''error.main'', color = ''error.main''\<rparr>)"
proof -
  have a: "\<exists>cls. Home_className c = Inr cls"
  proof -
    obtain t where "Home_badge_class c = Inr t" using Home_class_total by blast
    then show ?thesis by (simp add: Home_className_def)
  qed
  have b: "\<exists>sx. App_sx c = Inr sx"
  proof -
    obtain t where "App_palette c = Inr t" using App_palette_total by blast
    then show ?thesis by (simp add: App_sx_def)
  qed
  have d: "\<not> loading c \<and> healthStatus c = JNull \<longrightarrow>
        Home_badge_text c = Inr (red_circle @ '' Backend Offline'')
        \<and> Home_className c =
            Inr ''inline-block px-4 py-2 rounded-full border mb-12 border-red-500 text-red-500''
        \<and> App_label c = Inr (red_circle @ '' Backend Offline'')
        \<and> App_sx c = Inr \<lparr>mb = 6, borderColor = ''error.main'', color = ''error.main''\<rparr>"
    by (simp add: Home_badge_text_def Home_className_def Home_badge_class_def App_label_def
        App_sx_def App_palette_def strict_eq_str_def)
  from a b d Home_text_total App_label_total show ?thesis by simp
qed

theorem badge_render_total_witness:
  "Home_badge_text \<lparr>healthStatus = JNull, loading = False, effect_deps = Some [],
       requests = [], in_flight = 0, writes = 0\<rparr> = Inr (red_circle @ '' Backend Offline'')
   \<and> App_sx \<lparr>healthStatus = JNull, loading = False, effect_deps = Some [],
       requests = [], in_flight = 0, writes = 0\<rparr>
      = Inr \<lparr>mb = 6, borderColor = ''error.main'', color = ''error.main''\<rparr>"
  using badge_render_total [of "\<lparr>healthStatus = JNull, loading = False, effect_deps = Some [],
       requests = [], in_flight = 0, writes = 0\<rparr>"]
  by simp

end
